theory Spec2Isabelle
  imports Main
begin

section \<open>JavaScript values\<close>

text \<open>
  The transport layer of the SDK (\<^verbatim>\<open>src/client.ts\<close>) inspects whatever
  \<^verbatim>\<open>JSON.parse\<close> hands back with the dynamic operators of JavaScript: truthiness,
  \<^verbatim>\<open>typeof\<close>, \<^verbatim>\<open>===\<close>, \<^verbatim>\<open>??\<close>, \<^verbatim>\<open>in\<close> and property access.
  The values are modelled by one datatype. Numbers are integers: the code never computes
  with a number of a response, it only tests it for zero (truthiness) and passes it on.
  \<open>JBigInt\<close> stands for the BigInt primitives that a caller may place in a request body;
  \<^verbatim>\<open>JSON.parse\<close> never produces one. An object is the list of its own properties,
  each name once (a lookup takes the first entry of a name).
\<close>

datatype jsval =
    JUndefined
  | JNull
  | JBool bool
  | JNum int
  | JBigInt int
  | JStr string
  | JArr "jsval list"
  | JObj "(string \<times> jsval) list"

text \<open>\<^verbatim>\<open>ToBoolean\<close>: what \<^verbatim>\<open>!v\<close>, \<^verbatim>\<open>v && ...\<close> and \<^verbatim>\<open>v || ...\<close> test.\<close>

fun truthy :: "jsval \<Rightarrow> bool" where
  "truthy JUndefined = False"
| "truthy JNull = False"
| "truthy (JBool b) = b"
| "truthy (JNum n) = (n \<noteq> 0)"
| "truthy (JBigInt n) = (n \<noteq> 0)"
| "truthy (JStr s) = (s \<noteq> [])"
| "truthy (JArr xs) = True"
| "truthy (JObj kvs) = True"

text \<open>The left operand of \<^verbatim>\<open>??\<close> is replaced when it is \<^verbatim>\<open>null\<close> or \<^verbatim>\<open>undefined\<close>.\<close>

fun nullish :: "jsval \<Rightarrow> bool" where
  "nullish JUndefined = True"
| "nullish JNull = True"
| "nullish v = False"

fun typeof :: "jsval \<Rightarrow> string" where
  "typeof JUndefined = ''undefined''"
| "typeof JNull = ''object''"
| "typeof (JBool b) = ''boolean''"
| "typeof (JNum n) = ''number''"
| "typeof (JBigInt n) = ''bigint''"
| "typeof (JStr s) = ''string''"
| "typeof (JArr xs) = ''object''"
| "typeof (JObj kvs) = ''object''"

text \<open>
  Property access \<^verbatim>\<open>v.k\<close> and \<^verbatim>\<open>v?.k\<close> for the property names the SDK reads
  (\<^verbatim>\<open>error\<close>, \<^verbatim>\<open>success\<close>, \<^verbatim>\<open>status\<close>, \<^verbatim>\<open>data\<close>, \<^verbatim>\<open>wallets\<close>,
  \<^verbatim>\<open>users\<close>, \<^verbatim>\<open>count\<close>): none of them is inherited from a prototype, so the
  result is the own property of an object and \<^verbatim>\<open>undefined\<close> for everything else.
  On \<^verbatim>\<open>null\<close> and \<^verbatim>\<open>undefined\<close> the plain access \<^verbatim>\<open>v.k\<close> raises in JavaScript;
  the SDK applies it only behind a truthiness test or to the result of \<open>request\<close>, which
  is never nullish (lemma \<open>request_never_nullish\<close> below).
\<close>

fun get_prop :: "jsval \<Rightarrow> string \<Rightarrow> jsval" where
  "get_prop (JObj kvs) k = (case map_of kvs k of Some v \<Rightarrow> v | None \<Rightarrow> JUndefined)"
| "get_prop v k = JUndefined"

text \<open>\<^verbatim>\<open>k in v\<close>, for an operand \<open>v\<close> with \<^verbatim>\<open>typeof v === 'object'\<close> that is not null.\<close>

fun has_prop :: "string \<Rightarrow> jsval \<Rightarrow> bool" where
  "has_prop k (JObj kvs) = (map_of kvs k \<noteq> None)"
| "has_prop k v = False"

fun str_of :: "jsval \<Rightarrow> string" where
  "str_of (JStr s) = s"
| "str_of v = []"

fun isArray :: "jsval \<Rightarrow> bool" where
  "isArray (JArr xs) = True"
| "isArray v = False"

section \<open>Numbers in template strings\<close>

text \<open>
  The decimal digits of an integer, with a minus sign for a negative one. The transport
  prints the HTTP status this way (\<^verbatim>\<open>`${statusCode}`\<close>); JavaScript prints every
  integer of magnitude up to \<open>2^53 - 1\<close> so, and a status is far below that.
\<close>

definition digit_char :: "nat \<Rightarrow> char" where
  "digit_char d = ''0123456789'' ! d"

function show_nat :: "nat \<Rightarrow> string" where
  "show_nat n = (if n < 10 then [digit_char n] else show_nat (n div 10) @ [digit_char (n mod 10)])"
  by pat_completeness auto
termination
  by (relation "measure id") auto

declare show_nat.simps [simp del]

definition show_int :: "int \<Rightarrow> string" where
  "show_int i = (if i < 0 then ''-'' @ show_nat (nat (- i)) else show_nat (nat i))"

text \<open>
  The configured timeout is any JavaScript number, and \<^verbatim>\<open>`${config.timeout}`\<close>
  prints it by \<^verbatim>\<open>Number::toString\<close> of ECMAScript (radix 10). That algorithm works
  on the decimal digits \<open>s\<close> of the number (as few as identify it) and the exponent
  \<open>n\<close> with value \<open>s * 10^(n - k)\<close>, where \<open>k\<close> is the number of digits of \<open>s\<close>; a
  finite number is modelled by its sign, \<open>s\<close> and \<open>n\<close>. So \<open>Finite False 30000 5\<close> is
  30000, \<open>Finite False 50 2\<close> is 50, \<open>Finite False 15 1\<close> is 1.5,
  \<open>Finite False 1 22\<close> is 1e21, and \<open>s = 0\<close> is zero of either sign. Zeros at the end
  of \<open>s\<close> do not change the number (\<open>Finite False 3 5\<close> is 30000 too); the digits are
  taken without them.
\<close>

datatype jsnum =
    NaN
  | Infinity bool
  | Finite bool nat int

definition strip_zeros :: "string \<Rightarrow> string" where
  "strip_zeros ds = rev (dropWhile (\<lambda>c. c = CHR ''0'') (rev ds))"

text \<open>
  Steps 6 to 10 of \<^verbatim>\<open>Number::toString\<close>, for the digits \<open>ds\<close> (\<open>k\<close> of them) and
  the exponent \<open>n\<close>: plain notation for \<open>n\<close> from -5 to 21 (digits and zeros; digits
  around a point; or \<^verbatim>\<open>0.\<close>, zeros and the digits), the exponent notation otherwise.
\<close>

definition digits_toString :: "string \<Rightarrow> int \<Rightarrow> string" where
  "digits_toString ds n =
     (let k = int (length ds) in
      if - 5 \<le> n \<and> n \<le> 21 then
        (if k \<le> n then ds @ replicate (nat (n - k)) (CHR ''0'')
         else if 0 < n then take (nat n) ds @ ''.'' @ drop (nat n) ds
         else ''0.'' @ replicate (nat (- n)) (CHR ''0'') @ ds)
      else
        (let e = (if n < 0 then ''-'' else ''+'') @ show_nat (nat \<bar>n - 1\<bar>)
         in if k = 1 then ds @ ''e'' @ e
            else take 1 ds @ ''.'' @ drop 1 ds @ ''e'' @ e))"

definition Number_toString :: "jsnum \<Rightarrow> string" where
  "Number_toString x =
     (case x of
        NaN \<Rightarrow> ''NaN''
      | Infinity neg \<Rightarrow> (if neg then ''-Infinity'' else ''Infinity'')
      | Finite neg s n \<Rightarrow>
          if s = 0 then ''0''
          else (if neg then ''-'' else []) @ digits_toString (strip_zeros (show_nat s)) n)"

section \<open>Errors (\<^verbatim>\<open>errors.ts\<close>)\<close>

text \<open>
  A value thrown by the platform (\<^verbatim>\<open>fetch\<close>, \<^verbatim>\<open>response.text()\<close>,
  \<^verbatim>\<open>JSON.stringify\<close>, \<^verbatim>\<open>encodeURIComponent\<close>): the transport reads only its
  \<^verbatim>\<open>name\<close> and \<^verbatim>\<open>message\<close>, both through \<^verbatim>\<open>err?.\<close>, so a thrown value that has
  no such property (or is nullish) has \<open>None\<close> there. The platform's errors carry strings.
\<close>

record js_error =
  err_name :: "string option"
  err_message :: "string option"

text \<open>
  \<^verbatim>\<open>KiteApiError\<close>: \<^verbatim>\<open>statusCode\<close> is declared a number, but the transport may store
  the \<^verbatim>\<open>status\<close> property of a response envelope there, which is any JSON value.
  An optional field that was not given is \<open>None\<close> (\<^verbatim>\<open>code\<close>) or \<open>JUndefined\<close>
  (\<^verbatim>\<open>raw\<close>).
\<close>

record KiteApiError =
  statusCode :: jsval
  message :: string
  code :: "string option"
  raw :: jsval

record KiteNetworkError =
  net_message :: string
  cause :: js_error

section \<open>Configuration, platform and effects\<close>

datatype LogLevel = Debug | Info | Warn | Error

fun level_name :: "LogLevel \<Rightarrow> string" where
  "level_name Debug = ''debug''"
| "level_name Info = ''info''"
| "level_name Warn = ''warn''"
| "level_name Error = ''error''"

text \<open>
  What a call does besides returning or throwing, in order: the cancellation timer is
  armed and cleared, a line is written to the console (by the method of that name), and
  a request is handed to \<^verbatim>\<open>fetch\<close>.
\<close>

record request_init =
  init_method :: string
  init_headers :: "(string \<times> string) list"
  init_body :: "string option"

datatype event =
    SetTimeout jsnum
  | ClearTimeout
  | Console string string
  | Fetch string request_init

text \<open>
  \<^verbatim>\<open>RequestConfig\<close>. The field \<open>log\<close> is the logging function of the client; it
  returns the events it causes.
\<close>

record RequestConfig =
  baseUrl :: string
  apiKey :: string
  timeout :: jsnum
  logLevel :: LogLevel
  log :: "LogLevel \<Rightarrow> string \<Rightarrow> event list"

record response =
  status :: int
  statusText :: string

text \<open>\<^verbatim>\<open>response.ok\<close> is, by the Fetch standard, true exactly for a status from 200 to 299.\<close>

definition ok :: "response \<Rightarrow> bool" where
  "ok r = (200 \<le> status r \<and> status r \<le> 299)"

text \<open>
  The exchange \<^verbatim>\<open>response = await fetch(url, init); responseText = await response.text()\<close>
  either throws (a connection failure, or the abort that the cancellation timer
  triggers, which the platform reports as an error named \<^verbatim>\<open>AbortError\<close>) or yields a
  response and its body text. When it settles, and which of the timer and the network
  wins the race, is the platform's business: the model takes the settled exchange from it.
\<close>

datatype exchange =
    Rejected js_error
  | Responded response string

text \<open>
  The platform functions the SDK calls. \<^verbatim>\<open>JSON.parse\<close> throws on malformed text
  (\<open>None\<close>); \<^verbatim>\<open>JSON.stringify\<close> throws a \<^verbatim>\<open>TypeError\<close> on a BigInt or a cyclic
  structure and \<^verbatim>\<open>encodeURIComponent\<close> a \<^verbatim>\<open>URIError\<close> on a lone surrogate
  (\<open>Inl\<close> the error thrown).
\<close>

record platform =
  JSON_parse :: "string \<Rightarrow> jsval option"
  JSON_stringify :: "jsval \<Rightarrow> js_error + string"
  fetch :: "string \<Rightarrow> request_init \<Rightarrow> exchange"
  encodeURIComponent :: "string \<Rightarrow> js_error + string"

text \<open>How a call ends: it returns a payload or throws.\<close>

datatype outcome =
    Returned jsval
  | ThrowApi KiteApiError
  | ThrowNetwork KiteNetworkError
  | ThrowOther js_error

section \<open>The transport (\<^verbatim>\<open>client.ts\<close>)\<close>

definition safeJsonParse :: "platform \<Rightarrow> string \<Rightarrow> jsval" where
  "safeJsonParse pf body = (case JSON_parse pf body of Some v \<Rightarrow> v | None \<Rightarrow> JNull)"

text \<open>\<^verbatim>\<open>s.replace(/\/$/, '')\<close>: one slash at the very end of the string is removed.\<close>

definition strip_trailing_slash :: "string \<Rightarrow> string" where
  "strip_trailing_slash s = (if s \<noteq> [] \<and> last s = CHR ''/'' then butlast s else s)"

text \<open>The \<^verbatim>\<open>catch\<close> block of \<open>request\<close> (lines 60 to 68).\<close>

definition on_failure :: "RequestConfig \<Rightarrow> js_error \<Rightarrow> event list \<times> outcome" where
  "on_failure config err =
     (let isAbort = (err_name err = Some ''AbortError'');
          msg = (if isAbort
                 then ''Request timed out after '' @ Number_toString (timeout config) @ ''ms''
                 else (case err_message err of
                         Some m \<Rightarrow> if m \<noteq> [] then m else ''Network request failed''
                       | None \<Rightarrow> ''Network request failed''))
      in ([ClearTimeout] @ log config Error msg,
          ThrowNetwork \<lparr>net_message = msg, cause = err\<rparr>))"

text \<open>
  What \<open>request\<close> does with a response (lines 70 to 102).
  The message of the first branch is
  \<^verbatim>\<open>(data && typeof data.error === 'string' && data.error) || response.statusText || `...`\<close>:
  each operand is taken only if it is truthy, that is, a string that is not empty.
\<close>

definition on_response ::
  "platform \<Rightarrow> RequestConfig \<Rightarrow> string \<Rightarrow> response \<Rightarrow> string \<Rightarrow> event list \<times> outcome" where
  "on_response pf config path resp responseText =
     (let data = safeJsonParse pf responseText;
          sc = status resp
      in
      if \<not> ok resp then
        (let msg =
              (if truthy data \<and> typeof (get_prop data ''error'') = ''string''
                  \<and> truthy (get_prop data ''error'')
               then str_of (get_prop data ''error'')
               else if statusText resp \<noteq> [] then statusText resp
               else ''Request failed with status '' @ show_int sc)
         in ([ClearTimeout] @ log config Warn (show_int sc @ '' '' @ path @ '': '' @ msg),
             ThrowApi \<lparr>statusCode = JNum sc, message = msg, code = None,
                       raw = (if nullish data then JStr responseText else data)\<rparr>))
      else if truthy data \<and> get_prop data ''success'' = JBool False then
        (let msg = (if typeof (get_prop data ''error'') = ''string''
                    then str_of (get_prop data ''error'') else ''Request failed'')
         in ([ClearTimeout] @ log config Warn (show_int sc @ '' '' @ path @ '': '' @ msg),
             ThrowApi \<lparr>statusCode = (if nullish (get_prop data ''status'') then JNum sc
                                     else get_prop data ''status''),
                       message = msg, code = None, raw = data\<rparr>))
      else if truthy data \<and> typeof data = ''object'' \<and> has_prop ''data'' data then
        ([ClearTimeout],
         Returned (if nullish (get_prop data ''data'') then data else get_prop data ''data''))
      else
        ([ClearTimeout], Returned (if nullish data then JObj [] else data)))"

text \<open>
  The first part of \<open>request\<close> (lines 33 to 50): the URL and the \<^verbatim>\<open>RequestInit\<close>.
  The optional argument \<^verbatim>\<open>body\<close> is \<open>JUndefined\<close> when it is left out.
  \<^verbatim>\<open>JSON.stringify(body)\<close> stands before the \<^verbatim>\<open>try\<close> block, so what it throws
  (\<open>Inl\<close>) is not caught by \<open>request\<close>. The abort signal of the \<^verbatim>\<open>RequestInit\<close>
  is part of the exchange (see \<open>exchange\<close>).
\<close>

definition build_request ::
  "platform \<Rightarrow> RequestConfig \<Rightarrow> string \<Rightarrow> string \<Rightarrow> jsval \<Rightarrow> js_error + (string \<times> request_init)" where
  "build_request pf config method path body =
     (let url = strip_trailing_slash (baseUrl config) @ path;
          headers = [(''Content-Type'', ''application/json''), (''X-API-Key'', apiKey config)];
          init = \<lparr>init_method = method, init_headers = headers, init_body = None\<rparr>
      in
      if body \<noteq> JUndefined \<and> body \<noteq> JNull \<and> method \<noteq> ''GET''
      then (case JSON_stringify pf body of
              Inl e \<Rightarrow> Inl e
            | Inr s \<Rightarrow> Inr (url, init\<lparr>init_body := Some s\<rparr>))
      else Inr (url, init))"

text \<open>
  \<open>request\<close>: the timer is armed first (line 35); an error of the serialization leaves
  the function with the timer still armed and nothing logged or sent; otherwise the
  request is logged at level debug, sent, and the settled exchange is classified.
\<close>

definition request ::
  "platform \<Rightarrow> RequestConfig \<Rightarrow> string \<Rightarrow> string \<Rightarrow> jsval \<Rightarrow> event list \<times> outcome" where
  "request pf config method path body =
     (case build_request pf config method path body of
        Inl e \<Rightarrow> ([SetTimeout (timeout config)], ThrowOther e)
      | Inr (url, init) \<Rightarrow>
          (let before = [SetTimeout (timeout config)] @ log config Debug (method @ '' '' @ url)
                          @ [Fetch url init];
               after = (case fetch pf url init of
                          Rejected err \<Rightarrow> on_failure config err
                        | Responded resp responseText \<Rightarrow>
                            on_response pf config path resp responseText)
           in (before @ fst after, snd after)))"

section \<open>The client (\<^verbatim>\<open>index.ts\<close>)\<close>

fun LOG_LEVELS :: "LogLevel \<Rightarrow> nat" where
  "LOG_LEVELS Debug = 0"
| "LOG_LEVELS Info = 1"
| "LOG_LEVELS Warn = 2"
| "LOG_LEVELS Error = 3"

text \<open>
  The logging function that the constructor stores in the configuration (lines 92 to 97),
  for the configured level \<open>lvl\<close>: \<^verbatim>\<open>console.log\<close> for a debug message, the console
  method named like the level otherwise.
\<close>

definition client_log :: "LogLevel \<Rightarrow> LogLevel \<Rightarrow> string \<Rightarrow> event list" where
  "client_log lvl level msg =
     (if LOG_LEVELS level \<le> LOG_LEVELS lvl
      then [Console (if level = Debug then ''log'' else level_name level) (''[KiteSDK] '' @ msg)]
      else [])"

text \<open>
  \<^verbatim>\<open>SdkConfiguration\<close> and the constructor. A field that is missing is \<open>None\<close>.
  \<^verbatim>\<open>String.prototype.trim\<close> is the platform's; the constructor throws a plain
  \<^verbatim>\<open>Error\<close> when the base URL or the key is missing or empty after trimming
  (\<^verbatim>\<open>!baseUrl\<close> holds for \<^verbatim>\<open>undefined\<close> and for the empty string alike).
\<close>

record SdkConfiguration =
  sdk_baseUrl :: "string option"
  sdk_apiKey :: "string option"
  sdk_logLevel :: "LogLevel option"
  sdk_timeout :: "jsnum option"

definition KiteClient :: "(string \<Rightarrow> string) \<Rightarrow> SdkConfiguration \<Rightarrow> js_error + RequestConfig" where
  "KiteClient trim config =
     (let b = (case sdk_baseUrl config of Some s \<Rightarrow> trim s | None \<Rightarrow> []);
          k = (case sdk_apiKey config of Some s \<Rightarrow> trim s | None \<Rightarrow> [])
      in
      if b = [] then
        Inl \<lparr>err_name = Some ''Error'', err_message = Some ''KiteClient: baseUrl is required''\<rparr>
      else if k = [] then
        Inl \<lparr>err_name = Some ''Error'', err_message = Some ''KiteClient: apiKey is required''\<rparr>
      else
        (let lvl = (case sdk_logLevel config of Some l \<Rightarrow> l | None \<Rightarrow> Info);
             t = (case sdk_timeout config of Some n \<Rightarrow> n | None \<Rightarrow> Finite False 30000 5)
         in Inr \<lparr>baseUrl = b, apiKey = k, timeout = t, logLevel = lvl,
                 log = client_log lvl\<rparr>))"

text \<open>
  \<^verbatim>\<open>const data = await this.req(...); return f(data)\<close>: a payload is post-processed,
  an error passes through.
\<close>

definition then_return :: "(jsval \<Rightarrow> jsval) \<Rightarrow> event list \<times> outcome \<Rightarrow> event list \<times> outcome" where
  "then_return f r = (case snd r of Returned d \<Rightarrow> (fst r, Returned (f d)) | _ \<Rightarrow> r)"

text \<open>
  \<^verbatim>\<open>throw new KiteApiError({ statusCode: 400, message })\<close>, the result of a failed
  argument check: nothing has been logged or sent.
\<close>

definition bad_request :: "string \<Rightarrow> event list \<times> outcome" where
  "bad_request msg =
     ([], ThrowApi \<lparr>statusCode = JNum 400, message = msg, code = None, raw = JUndefined\<rparr>)"

text \<open>A parameter object (it is an object, by its declared type) and its property \<open>k\<close>.\<close>

type_synonym params = "(string \<times> jsval) list"

definition param :: "params \<Rightarrow> string \<Rightarrow> jsval" where
  "param ps k = get_prop (JObj ps) k"

text \<open>\<^verbatim>\<open>x !== undefined && ![0, 1, 2].includes(x)\<close>\<close>

definition bad_transactionType :: "jsval \<Rightarrow> bool" where
  "bad_transactionType x = (x \<noteq> JUndefined \<and> x \<notin> set [JNum 0, JNum 1, JNum 2])"

text \<open>The path built around an encoded segment; \<^verbatim>\<open>encodeURIComponent\<close> may throw.\<close>

definition with_encoded ::
  "platform \<Rightarrow> string \<Rightarrow> (string \<Rightarrow> event list \<times> outcome) \<Rightarrow> event list \<times> outcome" where
  "with_encoded pf s k = (case encodeURIComponent pf s of Inl e \<Rightarrow> ([], ThrowOther e) | Inr enc \<Rightarrow> k enc)"

definition healthCheck :: "platform \<Rightarrow> RequestConfig \<Rightarrow> event list \<times> outcome" where
  "healthCheck pf config =
     then_return
       (\<lambda>data. if nullish data
               then JObj [(''status'', JStr ''unknown''), (''service'', JStr ''kite-custody-orchestrator'')]
               else data)
       (request pf config ''GET'' ''/health'' JUndefined)"

definition createWallet :: "platform \<Rightarrow> RequestConfig \<Rightarrow> params \<Rightarrow> event list \<times> outcome" where
  "createWallet pf config ps =
     request pf config ''POST'' ''/api/wallets'' (JObj [(''userEmail'', param ps ''userEmail'')])"

text \<open>The post-processing shared by \<^verbatim>\<open>listWallets\<close> (\<open>k = wallets\<close>) and \<^verbatim>\<open>listUsers\<close> (\<open>k = users\<close>).\<close>

definition list_result :: "string \<Rightarrow> jsval \<Rightarrow> jsval" where
  "list_result k data =
     (if isArray (get_prop data k) then
        JObj [(k, get_prop data k), (''count'', get_prop data ''count'')]
      else if isArray (get_prop (get_prop data ''data'') k) then
        JObj [(k, get_prop (get_prop data ''data'') k),
              (''count'', get_prop (get_prop data ''data'') ''count'')]
      else JObj [(k, JArr []), (''count'', JNum 0)])"

definition listWallets :: "platform \<Rightarrow> RequestConfig \<Rightarrow> event list \<times> outcome" where
  "listWallets pf config =
     then_return (list_result ''wallets'') (request pf config ''GET'' ''/api/wallets'' JUndefined)"

text \<open>\<^verbatim>\<open>(data as any).data ?? data\<close>\<close>

definition data_or_self :: "jsval \<Rightarrow> jsval" where
  "data_or_self data = (if nullish (get_prop data ''data'') then data else get_prop data ''data'')"

definition getWallet :: "platform \<Rightarrow> RequestConfig \<Rightarrow> jsval \<Rightarrow> event list \<times> outcome" where
  "getWallet pf config walletId =
     (if \<not> truthy walletId \<or> typeof walletId \<noteq> ''string'' then
        bad_request ''walletId is required and must be a string''
      else
        with_encoded pf (str_of walletId) (\<lambda>enc.
          then_return data_or_self
            (request pf config ''GET'' (''/api/wallets/'' @ enc) JUndefined)))"

definition getWalletsByUser :: "platform \<Rightarrow> RequestConfig \<Rightarrow> jsval \<Rightarrow> event list \<times> outcome" where
  "getWalletsByUser pf config email =
     (if \<not> truthy email \<or> typeof email \<noteq> ''string'' then
        bad_request ''email is required and must be a string''
      else
        with_encoded pf (str_of email) (\<lambda>enc.
          request pf config ''GET'' (''/api/wallets/users/'' @ enc @ ''/wallets'') JUndefined))"

definition listUsers :: "platform \<Rightarrow> RequestConfig \<Rightarrow> event list \<times> outcome" where
  "listUsers pf config =
     then_return (list_result ''users'') (request pf config ''GET'' ''/api/users'' JUndefined)"

definition getUser :: "platform \<Rightarrow> RequestConfig \<Rightarrow> jsval \<Rightarrow> event list \<times> outcome" where
  "getUser pf config email =
     (if \<not> truthy email \<or> typeof email \<noteq> ''string'' then
        bad_request ''email is required and must be a string''
      else
        with_encoded pf (str_of email) (\<lambda>enc.
          then_return data_or_self
            (request pf config ''GET'' (''/api/users/'' @ enc) JUndefined)))"

definition getNonce :: "platform \<Rightarrow> RequestConfig \<Rightarrow> params \<Rightarrow> event list \<times> outcome" where
  "getNonce pf config ps =
     (if \<not> truthy (param ps ''walletId'') \<or> \<not> truthy (param ps ''rpcUrl'') then
        bad_request ''walletId and rpcUrl are required''
      else
        request pf config ''POST'' ''/api/transactions/nonce''
          (JObj [(''walletId'', param ps ''walletId''), (''rpcUrl'', param ps ''rpcUrl'')]))"

definition getGasPrices :: "platform \<Rightarrow> RequestConfig \<Rightarrow> params \<Rightarrow> event list \<times> outcome" where
  "getGasPrices pf config ps =
     (if \<not> truthy (param ps ''rpcUrl'') then bad_request ''rpcUrl is required''
      else
        request pf config ''POST'' ''/api/transactions/gas-prices''
          (JObj [(''rpcUrl'', param ps ''rpcUrl''),
                 (''transactionType'', param ps ''transactionType''),
                 (''transaction'', param ps ''transaction'')]))"

definition getGasPrice :: "platform \<Rightarrow> RequestConfig \<Rightarrow> params \<Rightarrow> event list \<times> outcome" where
  "getGasPrice pf config ps =
     (if \<not> truthy (param ps ''rpcUrl'') then bad_request ''rpcUrl is required''
      else
        request pf config ''POST'' ''/api/transactions/gas-price''
          (JObj [(''rpcUrl'', param ps ''rpcUrl''),
                 (''transactionType'', param ps ''transactionType''),
                 (''transaction'', param ps ''transaction'')]))"

definition createNativeTransfer :: "platform \<Rightarrow> RequestConfig \<Rightarrow> params \<Rightarrow> event list \<times> outcome" where
  "createNativeTransfer pf config ps =
     (if \<not> truthy (param ps ''walletId'') \<or> \<not> truthy (param ps ''rpcUrl'')
         \<or> \<not> truthy (param ps ''to'') then
        bad_request ''walletId, rpcUrl, and to are required''
      else if bad_transactionType (param ps ''transactionType'') then
        bad_request ''transactionType must be 0, 1 (Legacy), or 2 (EIP-1559) if provided''
      else
        request pf config ''POST'' ''/api/transactions/native''
          (JObj [(''walletId'', param ps ''walletId''),
                 (''rpcUrl'', param ps ''rpcUrl''),
                 (''to'', param ps ''to''),
                 (''value'', param ps ''value''),
                 (''tokenAddress'', param ps ''tokenAddress''),
                 (''transactionType'', param ps ''transactionType''),
                 (''gasData'', param ps ''gasData''),
                 (''nonce'', param ps ''nonce'')]))"

definition createERC20Transfer :: "platform \<Rightarrow> RequestConfig \<Rightarrow> params \<Rightarrow> event list \<times> outcome" where
  "createERC20Transfer pf config ps =
     (if \<not> truthy (param ps ''walletId'') \<or> \<not> truthy (param ps ''rpcUrl'')
         \<or> \<not> truthy (param ps ''tokenAddress'') \<or> \<not> truthy (param ps ''to'')
         \<or> nullish (param ps ''amount'') then
        bad_request ''walletId, rpcUrl, tokenAddress, to, and amount are required''
      else if bad_transactionType (param ps ''transactionType'') then
        bad_request ''transactionType must be 0, 1 (Legacy), or 2 (EIP-1559) if provided''
      else
        request pf config ''POST'' ''/api/transactions/erc20''
          (JObj [(''walletId'', param ps ''walletId''),
                 (''rpcUrl'', param ps ''rpcUrl''),
                 (''tokenAddress'', param ps ''tokenAddress''),
                 (''to'', param ps ''to''),
                 (''amount'', param ps ''amount''),
                 (''transactionType'', param ps ''transactionType''),
                 (''gasData'', param ps ''gasData''),
                 (''nonce'', param ps ''nonce'')]))"

definition signTransaction :: "platform \<Rightarrow> RequestConfig \<Rightarrow> params \<Rightarrow> event list \<times> outcome" where
  "signTransaction pf config ps =
     (if \<not> truthy (param ps ''walletId'') \<or> typeof (param ps ''walletId'') \<noteq> ''string'' then
        bad_request ''walletId is required and must be a string''
      else if \<not> truthy (param ps ''unsignedRaw'') \<or> typeof (param ps ''unsignedRaw'') \<noteq> ''string''
              \<or> take 2 (str_of (param ps ''unsignedRaw'')) \<noteq> ''0x'' then
        bad_request ''unsignedRaw is required and must be a valid hex string starting with 0x''
      else
        request pf config ''POST'' ''/api/transactions/sign''
          (JObj [(''walletId'', param ps ''walletId''),
                 (''unsignedRaw'', param ps ''unsignedRaw''),
                 (''transaction'', param ps ''transaction'')]))"

definition broadcastTransaction :: "platform \<Rightarrow> RequestConfig \<Rightarrow> params \<Rightarrow> event list \<times> outcome" where
  "broadcastTransaction pf config ps =
     (if \<not> truthy (param ps ''signedHex'') \<or> typeof (param ps ''signedHex'') \<noteq> ''string'' then
        bad_request ''signedHex is required and must be a string''
      else if \<not> truthy (param ps ''rpcUrl'') \<or> typeof (param ps ''rpcUrl'') \<noteq> ''string'' then
        bad_request ''rpcUrl is required and must be a string''
      else
        request pf config ''POST'' ''/api/transactions/broadcast''
          (JObj [(''signedHex'', param ps ''signedHex''), (''rpcUrl'', param ps ''rpcUrl'')]))"

text \<open>A call of a public method of the client, and what it does.\<close>

datatype call =
    HealthCheck
  | CreateWallet params
  | ListWallets
  | GetWallet jsval
  | GetWalletsByUser jsval
  | ListUsers
  | GetUser jsval
  | GetNonce params
  | GetGasPrices params
  | GetGasPrice params
  | CreateNativeTransfer params
  | CreateERC20Transfer params
  | SignTransaction params
  | BroadcastTransaction params

fun invoke :: "platform \<Rightarrow> RequestConfig \<Rightarrow> call \<Rightarrow> event list \<times> outcome" where
  "invoke pf config HealthCheck = healthCheck pf config"
| "invoke pf config (CreateWallet ps) = createWallet pf config ps"
| "invoke pf config ListWallets = listWallets pf config"
| "invoke pf config (GetWallet walletId) = getWallet pf config walletId"
| "invoke pf config (GetWalletsByUser email) = getWalletsByUser pf config email"
| "invoke pf config ListUsers = listUsers pf config"
| "invoke pf config (GetUser email) = getUser pf config email"
| "invoke pf config (GetNonce ps) = getNonce pf config ps"
| "invoke pf config (GetGasPrices ps) = getGasPrices pf config ps"
| "invoke pf config (GetGasPrice ps) = getGasPrice pf config ps"
| "invoke pf config (CreateNativeTransfer ps) = createNativeTransfer pf config ps"
| "invoke pf config (CreateERC20Transfer ps) = createERC20Transfer pf config ps"
| "invoke pf config (SignTransaction ps) = signTransaction pf config ps"
| "invoke pf config (BroadcastTransaction ps) = broadcastTransaction pf config ps"

section \<open>Outcomes of a call\<close>

fun returns :: "outcome \<Rightarrow> bool" where
  "returns (Returned v) = True"
| "returns out = False"

fun throws_api :: "outcome \<Rightarrow> bool" where
  "throws_api (ThrowApi e) = True"
| "throws_api out = False"

fun throws_network :: "outcome \<Rightarrow> bool" where
  "throws_network (ThrowNetwork e) = True"
| "throws_network out = False"

text \<open>
  The call returned a payload, threw a \<^verbatim>\<open>KiteApiError\<close> or threw a
  \<^verbatim>\<open>KiteNetworkError\<close>, and only one of the three.
\<close>

definition exactly_one_outcome :: "outcome \<Rightarrow> bool" where
  "exactly_one_outcome out =
     ((returns out \<and> \<not> throws_api out \<and> \<not> throws_network out)
      \<or> (throws_api out \<and> \<not> returns out \<and> \<not> throws_network out)
      \<or> (throws_network out \<and> \<not> returns out \<and> \<not> throws_api out))"

section \<open>A platform for examples\<close>

text \<open>
  A stand-in for the platform, to run the client on concrete inputs: it answers every
  request with the exchange \<open>ex\<close> and parses by the table \<open>parse\<close> (a text that is not
  in the table is malformed). Its \<^verbatim>\<open>JSON.stringify\<close> refuses a value that holds a
  BigInt, as the platform's does, and answers a fixed text otherwise (the client passes
  the text on unread); its \<^verbatim>\<open>encodeURIComponent\<close> leaves the segment as it is.
\<close>

fun has_bigint :: "jsval \<Rightarrow> bool" where
  "has_bigint (JBigInt n) = True"
| "has_bigint (JArr xs) = list_ex has_bigint xs"
| "has_bigint (JObj kvs) = list_ex (\<lambda>kv. has_bigint (snd kv)) kvs"
| "has_bigint v = False"

definition bigint_error :: js_error where
  "bigint_error =
     \<lparr>err_name = Some ''TypeError'', err_message = Some ''Do not know how to serialize a BigInt''\<rparr>"

definition mock_stringify :: "jsval \<Rightarrow> js_error + string" where
  "mock_stringify v = (if has_bigint v then Inl bigint_error else Inr ''{}'')"

definition mock_platform :: "(string \<times> jsval) list \<Rightarrow> exchange \<Rightarrow> platform" where
  "mock_platform parse ex =
     \<lparr>JSON_parse = map_of parse, JSON_stringify = mock_stringify,
      fetch = (\<lambda>url init. ex), encodeURIComponent = Inr\<rparr>"

text \<open>The configuration of a client constructed with the defaults (level info, 30 seconds).\<close>

definition sample_config :: RequestConfig where
  "sample_config =
     \<lparr>baseUrl = ''https://kite.example.com'', apiKey = ''key'',
      timeout = Finite False 30000 5, logLevel = Info, log = client_log Info\<rparr>"

section \<open>Lemmas about the model\<close>

subsection \<open>Printing numbers\<close>

lemma show_nat_small: "n < 10 \<Longrightarrow> show_nat n = [digit_char n]"
  by (simp add: show_nat.simps)

lemma show_nat_big: "10 \<le> n \<Longrightarrow> show_nat n = show_nat (n div 10) @ [digit_char (n mod 10)]"
  by (subst show_nat.simps) simp

lemmas show_nat_eval = show_nat_small show_nat_big digit_char_def

lemma show_int_examples:
  "show_int 200 = ''200''"
  "show_int 404 = ''404''"
  "show_int 503 = ''503''"
  "show_int (- 7) = ''-7''"
  by (simp_all add: show_int_def show_nat_eval)

lemma replicate_pos: "0 < n \<Longrightarrow> replicate n x = x # replicate (n - 1) x"
  by (cases n) simp_all

text \<open>
  What JavaScript prints for 30000, 50, 1.5, 1e21, 1e-7, \<open>2^60\<close>, -0.025, -0, and the
  numbers that are not finite.
\<close>

lemma Number_toString_examples:
  "Number_toString (Finite False 30000 5) = ''30000''"
  "Number_toString (Finite False 50 2) = ''50''"
  "Number_toString (Finite False 15 1) = ''1.5''"
  "Number_toString (Finite False 1 22) = ''1e+21''"
  "Number_toString (Finite False 1 (- 6)) = ''1e-7''"
  "Number_toString (Finite False 1152921504606847 19) = ''1152921504606847000''"
  "Number_toString (Finite True 25 (- 1)) = ''-0.025''"
  "Number_toString (Finite True 0 0) = ''0''"
  "Number_toString (Infinity False) = ''Infinity''"
  "Number_toString (Infinity True) = ''-Infinity''"
  "Number_toString NaN = ''NaN''"
  by (simp_all add: Number_toString_def strip_zeros_def show_nat_eval)
     (simp_all add: digits_toString_def Let_def replicate_pos show_nat_eval)

lemma length_show_nat: "0 < k \<Longrightarrow> n < 10 ^ k \<Longrightarrow> length (show_nat n) \<le> k"
proof (induction n arbitrary: k rule: show_nat.induct)
  case (1 n)
  show ?case
  proof (cases "n < 10")
    case True
    with "1.prems" show ?thesis by (simp add: show_nat_small)
  next
    case False
    then obtain j where k: "k = Suc j" and j: "0 < j"
      using "1.prems" by (cases k; cases "k - 1") auto
    from "1.prems" k have "n div 10 < 10 ^ j" by (simp add: less_mult_imp_div_less mult.commute)
    with "1.IH"[OF False j] have "length (show_nat (n div 10)) \<le> j" .
    with False k show ?thesis by (simp add: show_nat_big)
  qed
qed

lemma takeWhile_zeros:
  "takeWhile (\<lambda>c. c = z) ys = replicate (length (takeWhile (\<lambda>c. c = z) ys)) z"
  by (induction ys) auto

lemma strip_zeros_restore:
  "strip_zeros ds @ replicate (length ds - length (strip_zeros ds)) (CHR ''0'') = ds"
proof -
  let ?P = "\<lambda>c. c = CHR ''0''"
  have len: "length ds = length (takeWhile ?P (rev ds)) + length (dropWhile ?P (rev ds))"
    by (metis length_append length_rev takeWhile_dropWhile_id)
  have "rev (rev ds) = rev (takeWhile ?P (rev ds) @ dropWhile ?P (rev ds))"
    by (simp only: takeWhile_dropWhile_id)
  then have "ds = strip_zeros ds @ rev (takeWhile ?P (rev ds))"
    by (simp only: rev_rev_ident rev_append strip_zeros_def)
  also have "rev (takeWhile ?P (rev ds))
      = replicate (length (takeWhile ?P (rev ds))) (CHR ''0'')"
    by (subst takeWhile_zeros) simp
  finally have "ds = strip_zeros ds @ replicate (length (takeWhile ?P (rev ds))) (CHR ''0'')" .
  moreover have "length ds - length (strip_zeros ds) = length (takeWhile ?P (rev ds))"
    using len by (simp add: strip_zeros_def)
  ultimately show ?thesis by simp
qed

lemma length_strip_zeros: "length (strip_zeros ds) \<le> length ds"
  by (simp add: strip_zeros_def) (metis length_dropWhile_le length_rev)

text \<open>
  A positive integer below \<open>10^21\<close>, given by its decimal digits, is printed as those
  digits: the plain notation of \<^verbatim>\<open>Number::toString\<close> agrees with \<open>show_nat\<close>.
\<close>

lemma Number_toString_integer:
  assumes "0 < n" and "n < 10 ^ 21"
  shows "Number_toString (Finite False n (int (length (show_nat n)))) = show_nat n"
proof -
  let ?ds = "show_nat n"
  have k: "length ?ds \<le> 21" using length_show_nat[of 21 n] assms by simp
  have l: "length (strip_zeros ?ds) \<le> length ?ds" by (rule length_strip_zeros)
  have "digits_toString (strip_zeros ?ds) (int (length ?ds))
          = strip_zeros ?ds @ replicate (length ?ds - length (strip_zeros ?ds)) (CHR ''0'')"
    using k l by (simp add: digits_toString_def Let_def nat_diff_distrib')
  also have "\<dots> = ?ds" by (rule strip_zeros_restore)
  finally show ?thesis using assms by (simp add: Number_toString_def)
qed

subsection \<open>The two ways an exchange settles\<close>

lemma request_responded:
  assumes "build_request pf config method path body = Inr (url, init)"
    and "fetch pf url init = Responded resp responseText"
  shows "snd (request pf config method path body)
           = snd (on_response pf config path resp responseText)"
  using assms by (simp add: request_def Let_def)

lemma request_rejected:
  assumes "build_request pf config method path body = Inr (url, init)"
    and "fetch pf url init = Rejected err"
  shows "snd (request pf config method path body) = snd (on_failure config err)"
  using assms by (simp add: request_def Let_def)

lemma on_failure_outcome: "\<exists>e. snd (on_failure config err) = ThrowNetwork e"
  by (simp add: on_failure_def Let_def)

lemma on_response_outcome:
  "(\<exists>v. snd (on_response pf config path resp responseText) = Returned v)
   \<or> (\<exists>e. snd (on_response pf config path resp responseText) = ThrowApi e)"
  by (simp add: on_response_def Let_def)

lemma build_request_serializable:
  assumes "body = JUndefined \<or> body = JNull \<or> method = ''GET''
           \<or> (\<exists>s. JSON_stringify pf body = Inr s)"
  shows "\<exists>url init. build_request pf config method path body = Inr (url, init)"
  using assms by (auto simp: build_request_def Let_def)

subsection \<open>Reading the envelope\<close>

lemma truthy_not_nullish: "truthy d \<Longrightarrow> \<not> nullish d"
  by (cases d) simp_all

lemma get_prop_string_iff:
  "(truthy data \<and> typeof (get_prop data k) = ''string'' \<and> truthy (get_prop data k))
     = (\<exists>s. s \<noteq> [] \<and> get_prop data k = JStr s)"
  by (cases data; cases "get_prop data k") auto

lemma get_prop_success_false:
  assumes "get_prop d ''success'' = JBool False"
  shows "\<exists>kvs. d = JObj kvs \<and> map_of kvs ''success'' = Some (JBool False)"
  using assms by (cases d) (simp_all split: option.splits)

lemma safeJsonParse_obj:
  "safeJsonParse pf responseText = JObj kvs \<Longrightarrow> JSON_parse pf responseText = Some (JObj kvs)"
  by (cases "JSON_parse pf responseText") (simp_all add: safeJsonParse_def)

lemma on_response_declared_failure:
  assumes "ok resp"
    and "truthy (safeJsonParse pf responseText)"
    and "get_prop (safeJsonParse pf responseText) ''success'' = JBool False"
  shows "\<exists>e. snd (on_response pf config path resp responseText) = ThrowApi e"
  using assms by (simp add: on_response_def Let_def)

lemma on_response_success:
  assumes "ok resp"
    and "\<not> (truthy (safeJsonParse pf responseText)
            \<and> get_prop (safeJsonParse pf responseText) ''success'' = JBool False)"
  shows "snd (on_response pf config path resp responseText) =
     Returned (let data = safeJsonParse pf responseText in
               if truthy data \<and> typeof data = ''object'' \<and> has_prop ''data'' data
               then (if nullish (get_prop data ''data'') then data else get_prop data ''data'')
               else (if nullish data then JObj [] else data))"
  using assms
  by (cases "truthy (safeJsonParse pf responseText)") (simp_all add: on_response_def Let_def)

lemma on_response_ThrowApi:
  assumes "snd (on_response pf config path resp responseText) = ThrowApi e"
  shows "status resp < 200 \<or> 299 < status resp
         \<or> (\<exists>kvs. JSON_parse pf responseText = Some (JObj kvs)
                  \<and> map_of kvs ''success'' = Some (JBool False))"
proof (cases "ok resp")
  case False
  then show ?thesis by (auto simp: ok_def)
next
  case True
  have s: "get_prop (safeJsonParse pf responseText) ''success'' = JBool False"
  proof (rule ccontr)
    assume "get_prop (safeJsonParse pf responseText) ''success'' \<noteq> JBool False"
    then have "\<not> (truthy (safeJsonParse pf responseText)
            \<and> get_prop (safeJsonParse pf responseText) ''success'' = JBool False)"
      by simp
    from on_response_success[OF True this, of config path] assms
    show False by simp
  qed
  from get_prop_success_false[OF s] safeJsonParse_obj show ?thesis by blast
qed

text \<open>
  A payload that \<open>request\<close> returns is never \<^verbatim>\<open>null\<close> or \<^verbatim>\<open>undefined\<close>, so the
  property accesses that the public methods apply to it do not raise.
\<close>

lemma request_never_nullish:
  assumes "snd (request pf config method path body) = Returned v"
  shows "\<not> nullish v"
proof (cases "build_request pf config method path body")
  case (Inl err)
  with assms show ?thesis by (simp add: request_def)
next
  case (Inr p)
  obtain url init where p: "p = (url, init)" by (cases p)
  show ?thesis
  proof (cases "fetch pf url init")
    case (Rejected err)
    with assms Inr p show ?thesis
      by (simp add: request_def Let_def on_failure_def)
  next
    case (Responded resp responseText)
    with assms Inr p
    have out: "snd (on_response pf config path resp responseText) = Returned v"
      by (simp add: request_def Let_def)
    let ?d = "safeJsonParse pf responseText"
    show ?thesis
    proof (cases "ok resp")
      case False
      with out show ?thesis by (simp add: on_response_def Let_def)
    next
      case True
      show ?thesis
      proof (cases "truthy ?d \<and> get_prop ?d ''success'' = JBool False")
        case failure: True
        with on_response_declared_failure[OF True, of pf responseText config path] out
        show ?thesis by auto
      next
        case success: False
        have v: "v = (if truthy ?d \<and> typeof ?d = ''object'' \<and> has_prop ''data'' ?d
               then (if nullish (get_prop ?d ''data'') then ?d else get_prop ?d ''data'')
               else (if nullish ?d then JObj [] else ?d))"
          using out on_response_success[OF True success, of config path] by (simp add: Let_def)
        show ?thesis
          by (subst v) (simp add: truthy_not_nullish)
      qed
    qed
  qed
qed

subsection \<open>Where a \<^verbatim>\<open>KiteApiError\<close> comes from\<close>

lemma request_ThrowApi:
  assumes "request pf config method path body = (evs, ThrowApi e)"
  shows "\<exists>url init resp responseText.
           Fetch url init \<in> set evs \<and> fetch pf url init = Responded resp responseText
           \<and> (status resp < 200 \<or> 299 < status resp
                \<or> (\<exists>kvs. JSON_parse pf responseText = Some (JObj kvs)
                         \<and> map_of kvs ''success'' = Some (JBool False)))"
proof (cases "build_request pf config method path body")
  case (Inl err)
  with assms show ?thesis by (simp add: request_def)
next
  case (Inr p)
  obtain url init where p: "p = (url, init)" by (cases p)
  show ?thesis
  proof (cases "fetch pf url init")
    case (Rejected err)
    with assms Inr p show ?thesis
      by (simp add: request_def Let_def on_failure_def)
  next
    case (Responded resp responseText)
    have ev: "Fetch url init \<in> set evs"
      using assms Inr p Responded by (auto simp: request_def Let_def)
    have out: "snd (on_response pf config path resp responseText) = ThrowApi e"
      using assms Inr p Responded by (auto simp: request_def Let_def)
    from on_response_ThrowApi[OF out] ev Responded show ?thesis by blast
  qed
qed

lemma then_return_ThrowApi:
  "then_return f r = (evs, ThrowApi e) \<Longrightarrow> r = (evs, ThrowApi e)"
  by (cases r; cases "snd r") (auto simp: then_return_def)

lemma with_encoded_ThrowApi:
  "with_encoded pf s k = (evs, ThrowApi e) \<Longrightarrow> \<exists>enc. k enc = (evs, ThrowApi e)"
  by (cases "encodeURIComponent pf s") (auto simp: with_encoded_def)

lemma bad_request_ThrowApi:
  "bad_request msg = (evs, ThrowApi e)
     \<Longrightarrow> evs = [] \<and> statusCode e = JNum 400 \<and> raw e = JUndefined"
  by (auto simp: bad_request_def)

subsection \<open>The example platform\<close>

lemma sample_build_get:
  "build_request (mock_platform parse ex) sample_config ''GET'' ''/api/wallets'' JUndefined
     = Inr (''https://kite.example.com/api/wallets'',
            \<lparr>init_method = ''GET'',
             init_headers = [(''Content-Type'', ''application/json''), (''X-API-Key'', ''key'')],
             init_body = None\<rparr>)"
  by (simp add: build_request_def sample_config_def strip_trailing_slash_def)

lemma sample_build_get_timeout:
  "build_request (mock_platform parse ex) (sample_config\<lparr>timeout := t\<rparr>)
       ''GET'' ''/api/wallets'' JUndefined
     = Inr (''https://kite.example.com/api/wallets'',
            \<lparr>init_method = ''GET'',
             init_headers = [(''Content-Type'', ''application/json''), (''X-API-Key'', ''key'')],
             init_body = None\<rparr>)"
  by (simp add: build_request_def sample_config_def strip_trailing_slash_def)

lemma mock_fetch: "fetch (mock_platform parse ex) url init = ex"
  by (simp add: mock_platform_def)

lemma mock_parse: "JSON_parse (mock_platform parse ex) = map_of parse"
  by (simp add: mock_platform_def)

text \<open>
  A response whose status text is empty (as over HTTP/2) and whose body is not JSON: the
  message falls back to the text with the status.
\<close>

lemma http_error_fallback_example:
  "snd (request (mock_platform [] (Responded \<lparr>status = 503, statusText = []\<rparr> ''upstream down''))
          sample_config ''GET'' ''/api/wallets'' JUndefined)
     = ThrowApi \<lparr>statusCode = JNum 503, message = ''Request failed with status 503'',
                  code = None, raw = JStr ''upstream down''\<rparr>"
  by (simp add: request_def sample_build_get mock_fetch mock_parse on_response_def
        safeJsonParse_def ok_def Let_def show_int_examples)

lemma sample_config_built:
  "KiteClient id \<lparr>sdk_baseUrl = Some ''https://kite.example.com'', sdk_apiKey = Some ''key'',
      sdk_logLevel = None, sdk_timeout = None\<rparr> = Inr sample_config"
  by (simp add: KiteClient_def sample_config_def)

section \<open>The outcome of \<open>request\<close>\<close>

text \<open>
  Claim C1, as the code has it. For every call of \<open>request\<close> in which the body is not
  serialized (it is missing or null, or the method is GET) or \<^verbatim>\<open>JSON.stringify\<close>
  accepts it, whatever the platform answers, exactly one of three things happens: a payload
  is returned, a \<^verbatim>\<open>KiteApiError\<close> is thrown, or a \<^verbatim>\<open>KiteNetworkError\<close> is thrown;
  nothing else leaves the function. (The model is a total function of the settled exchange:
  that the exchange settles is the platform's part.)
\<close>

theorem request_outcome_exactly_one:
  assumes "body = JUndefined \<or> body = JNull \<or> method = ''GET''
           \<or> (\<exists>s. JSON_stringify pf body = Inr s)"
  shows "exactly_one_outcome (snd (request pf config method path body))"
proof -
  obtain url init where b: "build_request pf config method path body = Inr (url, init)"
    using build_request_serializable[OF assms] by blast
  show ?thesis
  proof (cases "fetch pf url init")
    case (Rejected err)
    with b on_failure_outcome[of config err] show ?thesis
      by (auto simp: request_rejected exactly_one_outcome_def)
  next
    case (Responded resp responseText)
    with b on_response_outcome[of pf config path resp responseText] show ?thesis
      by (auto simp: request_responded exactly_one_outcome_def)
  qed
qed

text \<open>
  An instance: \<^verbatim>\<open>POST /api/wallets\<close> with the body \<^verbatim>\<open>{ userEmail: 'ada@example.com' }\<close>,
  which serializes.
\<close>

theorem request_outcome_exactly_one_witness:
  "JSON_stringify (mock_platform [] (Responded \<lparr>status = 200, statusText = ''OK''\<rparr> ''not json{''))
      (JObj [(''userEmail'', JStr ''ada@example.com'')]) = Inr ''{}''
   \<and> exactly_one_outcome
        (snd (request (mock_platform [] (Responded \<lparr>status = 200, statusText = ''OK''\<rparr> ''not json{''))
                sample_config ''POST'' ''/api/wallets''
                (JObj [(''userEmail'', JStr ''ada@example.com'')])))"
proof -
  let ?pf = "mock_platform [] (Responded \<lparr>status = 200, statusText = ''OK''\<rparr> ''not json{'')"
  let ?body = "JObj [(''userEmail'', JStr ''ada@example.com'')]"
  have s: "JSON_stringify ?pf ?body = Inr ''{}''"
    by (simp add: mock_platform_def mock_stringify_def)
  then have h: "?body = JUndefined \<or> ?body = JNull \<or> ''POST'' = ''GET''
                 \<or> (\<exists>s. JSON_stringify ?pf ?body = Inr s)"
    by blast
  from s request_outcome_exactly_one[OF h, of sample_config "''/api/wallets''"]
  show ?thesis by blast
qed

text \<open>
  Claim C1 as it is worded (for every call) fails. The body
  \<^verbatim>\<open>{ rpcUrl: 'https://rpc.example.com', transactionType: undefined, transaction: { value: 10n } }\<close>
  holds a BigInt; \<^verbatim>\<open>JSON.stringify\<close> throws a \<^verbatim>\<open>TypeError\<close> on it at line 49, before
  the \<^verbatim>\<open>try\<close> block, and the \<^verbatim>\<open>TypeError\<close> leaves \<open>request\<close>: it is neither of the
  two error kinds. \<^verbatim>\<open>getGasPrices\<close> builds this body from its parameters, so the
  \<^verbatim>\<open>TypeError\<close> leaves the public method too.
\<close>

theorem request_unserializable_body_counterexample:
  "snd (request (mock_platform [] (Rejected \<lparr>err_name = None, err_message = None\<rparr>))
          sample_config ''POST'' ''/api/transactions/gas-prices''
          (JObj [(''rpcUrl'', JStr ''https://rpc.example.com''),
                 (''transactionType'', JUndefined),
                 (''transaction'', JObj [(''value'', JBigInt 10)])]))
     = ThrowOther bigint_error
   \<and> \<not> exactly_one_outcome (ThrowOther bigint_error)
   \<and> snd (invoke (mock_platform [] (Rejected \<lparr>err_name = None, err_message = None\<rparr>))
            sample_config
            (GetGasPrices [(''rpcUrl'', JStr ''https://rpc.example.com''),
                           (''transaction'', JObj [(''value'', JBigInt 10)])]))
     = ThrowOther bigint_error"
  by (simp add: getGasPrices_def param_def request_def build_request_def mock_platform_def
        mock_stringify_def exactly_one_outcome_def Let_def)

section \<open>A response outside the success range\<close>

text \<open>
  Claim C2, as the code has it. When the response has a status outside 200 to 299,
  \<open>request\<close> throws a \<^verbatim>\<open>KiteApiError\<close> whose \<^verbatim>\<open>statusCode\<close> is the HTTP status,
  whatever the body holds; whose message is the \<^verbatim>\<open>error\<close> property of the envelope if
  that is a string and not empty, else the status text of the response if that is not
  empty, else \<^verbatim>\<open>Request failed with status\<close> followed by the status; and whose
  \<^verbatim>\<open>raw\<close> is the parsed envelope if the body parsed to something other than null, else
  the text of the body.
\<close>

theorem request_http_error:
  assumes "build_request pf config method path body = Inr (url, init)"
    and "fetch pf url init = Responded resp responseText"
    and "status resp < 200 \<or> 299 < status resp"
  shows "\<exists>e. snd (request pf config method path body) = ThrowApi e
           \<and> statusCode e = JNum (status resp)
           \<and> message e =
               (case get_prop (safeJsonParse pf responseText) ''error'' of
                  JStr s \<Rightarrow> if s \<noteq> [] then s
                            else if statusText resp \<noteq> [] then statusText resp
                            else ''Request failed with status '' @ show_int (status resp)
                | _ \<Rightarrow> if statusText resp \<noteq> [] then statusText resp
                       else ''Request failed with status '' @ show_int (status resp))
           \<and> raw e =
               (case JSON_parse pf responseText of
                  None \<Rightarrow> JStr responseText
                | Some d \<Rightarrow> if d = JNull \<or> d = JUndefined then JStr responseText else d)"
proof -
  have nok: "\<not> ok resp" using assms(3) by (auto simp: ok_def)
  have raw_eq:
    "(if nullish (safeJsonParse pf responseText) then JStr responseText
      else safeJsonParse pf responseText)
      = (case JSON_parse pf responseText of None \<Rightarrow> JStr responseText
         | Some d \<Rightarrow> if d = JNull \<or> d = JUndefined then JStr responseText else d)"
    by (cases "JSON_parse pf responseText"; cases "the (JSON_parse pf responseText)")
       (auto simp: safeJsonParse_def)
  show ?thesis
    unfolding request_responded[OF assms(1,2)]
    using nok raw_eq
    by (cases "get_prop (safeJsonParse pf responseText) ''error''")
       (simp_all add: on_response_def Let_def get_prop_string_iff)
qed

text \<open>
  An instance: status 401 with the body
  \<^verbatim>\<open>{"success":false,"status":401,"error":"Invalid API key"}\<close>.
\<close>

theorem request_http_error_witness:
  \<open>build_request
      (mock_platform
         [(''{"success":false,"status":401,"error":"Invalid API key"}'',
           JObj [(''success'', JBool False), (''status'', JNum 401),
                 (''error'', JStr ''Invalid API key'')])]
         (Responded \<lparr>status = 401, statusText = ''Unauthorized''\<rparr>
            ''{"success":false,"status":401,"error":"Invalid API key"}''))
      sample_config ''GET'' ''/api/wallets'' JUndefined
    = Inr (''https://kite.example.com/api/wallets'',
           \<lparr>init_method = ''GET'',
            init_headers = [(''Content-Type'', ''application/json''), (''X-API-Key'', ''key'')],
            init_body = None\<rparr>)
   \<and> (\<exists>e. snd (request
          (mock_platform
             [(''{"success":false,"status":401,"error":"Invalid API key"}'',
               JObj [(''success'', JBool False), (''status'', JNum 401),
                     (''error'', JStr ''Invalid API key'')])]
             (Responded \<lparr>status = 401, statusText = ''Unauthorized''\<rparr>
                ''{"success":false,"status":401,"error":"Invalid API key"}''))
          sample_config ''GET'' ''/api/wallets'' JUndefined) = ThrowApi e
        \<and> statusCode e = JNum 401
        \<and> message e = ''Invalid API key''
        \<and> raw e = JObj [(''success'', JBool False), (''status'', JNum 401),
                         (''error'', JStr ''Invalid API key'')])\<close>
proof -
  let ?rt = \<open>''{"success":false,"status":401,"error":"Invalid API key"}''\<close>
  let ?env = "JObj [(''success'', JBool False), (''status'', JNum 401),
                    (''error'', JStr ''Invalid API key'')]"
  let ?resp = "\<lparr>status = 401, statusText = ''Unauthorized''\<rparr>"
  let ?pf = "mock_platform [(?rt, ?env)] (Responded ?resp ?rt)"
  let ?url = "''https://kite.example.com/api/wallets''"
  let ?init = "\<lparr>init_method = ''GET'',
            init_headers = [(''Content-Type'', ''application/json''), (''X-API-Key'', ''key'')],
            init_body = None\<rparr>"
  have b: "build_request ?pf sample_config ''GET'' ''/api/wallets'' JUndefined = Inr (?url, ?init)"
    by (rule sample_build_get)
  have f: "fetch ?pf ?url ?init = Responded ?resp ?rt"
    by (rule mock_fetch)
  have st: "status ?resp < 200 \<or> 299 < status ?resp" by simp
  have p: "JSON_parse ?pf ?rt = Some ?env" by (simp add: mock_parse)
  have d: "safeJsonParse ?pf ?rt = ?env" by (simp add: safeJsonParse_def p)
  from request_http_error[OF b f st] b show ?thesis
    unfolding d p by simp
qed

text \<open>
  Claim C2 as it is worded fails at two inputs. With status 500 and the body
  \<^verbatim>\<open>{"error":""}\<close> the \<^verbatim>\<open>error\<close> property is a string, yet the message is the
  status text: the \<^verbatim>\<open>||\<close> chain passes over an empty string. With status 502 and the
  body \<^verbatim>\<open>null\<close> parsing succeeds, yet \<^verbatim>\<open>raw\<close> is the text of the body:
  \<^verbatim>\<open>data ?? responseText\<close> does not tell a parsed null from a failed parse.
\<close>

theorem request_http_error_counterexample:
  \<open>JSON_parse
      (mock_platform [(''{"error":""}'', JObj [(''error'', JStr '''')])]
         (Responded \<lparr>status = 500, statusText = ''Internal Server Error''\<rparr> ''{"error":""}''))
      ''{"error":""}'' = Some (JObj [(''error'', JStr '''')])
   \<and> snd (request
          (mock_platform [(''{"error":""}'', JObj [(''error'', JStr '''')])]
             (Responded \<lparr>status = 500, statusText = ''Internal Server Error''\<rparr> ''{"error":""}''))
          sample_config ''GET'' ''/api/wallets'' JUndefined)
      = ThrowApi \<lparr>statusCode = JNum 500, message = ''Internal Server Error'', code = None,
                   raw = JObj [(''error'', JStr '''')]\<rparr>
   \<and> JSON_parse
      (mock_platform [(''null'', JNull)]
         (Responded \<lparr>status = 502, statusText = ''Bad Gateway''\<rparr> ''null''))
      ''null'' = Some JNull
   \<and> snd (request
          (mock_platform [(''null'', JNull)]
             (Responded \<lparr>status = 502, statusText = ''Bad Gateway''\<rparr> ''null''))
          sample_config ''GET'' ''/api/wallets'' JUndefined)
      = ThrowApi \<lparr>statusCode = JNum 502, message = ''Bad Gateway'', code = None,
                   raw = JStr ''null''\<rparr>\<close>
  by (simp add: request_def sample_build_get mock_fetch mock_parse on_response_def
        safeJsonParse_def ok_def Let_def)

section \<open>A success status with a declared failure\<close>

text \<open>
  Claim C3. When the status is in 200 to 299 and the parsed envelope has the property
  \<^verbatim>\<open>success\<close> with the value \<^verbatim>\<open>false\<close>, \<open>request\<close> throws a \<^verbatim>\<open>KiteApiError\<close>
  whose \<^verbatim>\<open>statusCode\<close> is the \<^verbatim>\<open>status\<close> property of the envelope if the envelope
  has one, else the HTTP status; whose message is the \<^verbatim>\<open>error\<close> property if that is a
  string, else \<^verbatim>\<open>Request failed\<close>; and whose \<^verbatim>\<open>raw\<close> is the whole envelope.
  The envelope type declares \<^verbatim>\<open>status\<close> a number; a \<^verbatim>\<open>status\<close> of null, which
  carries no status, counts as none (the code reads it with \<^verbatim>\<open>??\<close>).
\<close>

theorem request_declared_failure:
  assumes "build_request pf config method path body = Inr (url, init)"
    and "fetch pf url init = Responded resp responseText"
    and "200 \<le> status resp" and "status resp \<le> 299"
    and "JSON_parse pf responseText = Some (JObj kvs)"
    and "map_of kvs ''success'' = Some (JBool False)"
  shows "\<exists>e. snd (request pf config method path body) = ThrowApi e
           \<and> statusCode e =
               (case map_of kvs ''status'' of
                  None \<Rightarrow> JNum (status resp)
                | Some s \<Rightarrow> if s = JNull \<or> s = JUndefined then JNum (status resp) else s)
           \<and> message e =
               (case map_of kvs ''error'' of Some (JStr s) \<Rightarrow> s | _ \<Rightarrow> ''Request failed'')
           \<and> raw e = JObj kvs"
proof -
  have okr: "ok resp" using assms(3,4) by (simp add: ok_def)
  have d: "safeJsonParse pf responseText = JObj kvs"
    using assms(5) by (simp add: safeJsonParse_def)
  have st: "(if nullish (get_prop (JObj kvs) ''status'') then JNum (status resp)
             else get_prop (JObj kvs) ''status'')
      = (case map_of kvs ''status'' of
           None \<Rightarrow> JNum (status resp)
         | Some s \<Rightarrow> if s = JNull \<or> s = JUndefined then JNum (status resp) else s)"
    by (cases "map_of kvs ''status''"; cases "the (map_of kvs ''status'')") auto
  have ms: "(if typeof (get_prop (JObj kvs) ''error'') = ''string''
             then str_of (get_prop (JObj kvs) ''error'') else ''Request failed'')
      = (case map_of kvs ''error'' of Some (JStr s) \<Rightarrow> s | _ \<Rightarrow> ''Request failed'')"
    by (cases "map_of kvs ''error''"; cases "the (map_of kvs ''error'')") auto
  show ?thesis
    unfolding request_responded[OF assms(1,2)]
    using okr d st ms assms(6) by (simp add: on_response_def Let_def)
qed

text \<open>
  An instance: status 200 with the body
  \<^verbatim>\<open>{"success":false,"status":422,"error":"Insufficient funds"}\<close>.
\<close>

theorem request_declared_failure_witness:
  \<open>\<exists>e. snd (request
          (mock_platform
             [(''{"success":false,"status":422,"error":"Insufficient funds"}'',
               JObj [(''success'', JBool False), (''status'', JNum 422),
                     (''error'', JStr ''Insufficient funds'')])]
             (Responded \<lparr>status = 200, statusText = ''OK''\<rparr>
                ''{"success":false,"status":422,"error":"Insufficient funds"}''))
          sample_config ''GET'' ''/api/wallets'' JUndefined) = ThrowApi e
        \<and> statusCode e = JNum 422
        \<and> message e = ''Insufficient funds''
        \<and> raw e = JObj [(''success'', JBool False), (''status'', JNum 422),
                         (''error'', JStr ''Insufficient funds'')]\<close>
proof -
  let ?rt = \<open>''{"success":false,"status":422,"error":"Insufficient funds"}''\<close>
  let ?kvs = "[(''success'', JBool False), (''status'', JNum 422),
               (''error'', JStr ''Insufficient funds'')]"
  let ?resp = "\<lparr>status = 200, statusText = ''OK''\<rparr>"
  let ?pf = "mock_platform [(?rt, JObj ?kvs)] (Responded ?resp ?rt)"
  have f: "fetch ?pf ''https://kite.example.com/api/wallets''
             \<lparr>init_method = ''GET'',
              init_headers = [(''Content-Type'', ''application/json''), (''X-API-Key'', ''key'')],
              init_body = None\<rparr> = Responded ?resp ?rt"
    by (rule mock_fetch)
  have lo: "200 \<le> status ?resp" and hi: "status ?resp \<le> 299" by simp_all
  have p: "JSON_parse ?pf ?rt = Some (JObj ?kvs)" by (simp add: mock_parse)
  have s: "map_of ?kvs ''success'' = Some (JBool False)" by simp
  from request_declared_failure[OF sample_build_get f lo hi p s] show ?thesis by simp
qed

section \<open>Unwrapping the payload\<close>

text \<open>
  Claim C4. When the status is in 200 to 299 and the parsed envelope is
  \<^verbatim>\<open>{success: true, status: 200, data: X}\<close>, \<open>request\<close> returns exactly \<open>X\<close>; when
  the \<^verbatim>\<open>data\<close> property is missing or null, it returns the whole envelope.
\<close>

theorem request_unwraps_data:
  assumes "build_request pf config method path body = Inr (url, init)"
    and "fetch pf url init = Responded resp responseText"
    and "200 \<le> status resp" and "status resp \<le> 299"
    and "JSON_parse pf responseText = Some (JObj kvs)"
    and "map_of kvs ''success'' = Some (JBool True)"
    and "map_of kvs ''status'' = Some (JNum 200)"
  shows "snd (request pf config method path body) =
           Returned (case map_of kvs ''data'' of
                       None \<Rightarrow> JObj kvs
                     | Some x \<Rightarrow> if x = JNull \<or> x = JUndefined then JObj kvs else x)"
proof -
  have okr: "ok resp" using assms(3,4) by (simp add: ok_def)
  have d: "safeJsonParse pf responseText = JObj kvs"
    using assms(5) by (simp add: safeJsonParse_def)
  show ?thesis
    unfolding request_responded[OF assms(1,2)]
    using okr d assms(6)
    by (cases "map_of kvs ''data''"; cases "the (map_of kvs ''data'')")
       (simp_all add: on_response_def Let_def)
qed

text \<open>
  An instance: the body
  \<^verbatim>\<open>{"success":true,"status":200,"data":{"walletId":"w1","address":"0xabc"}}\<close>.
\<close>

theorem request_unwraps_data_witness:
  \<open>snd (request
          (mock_platform
             [(''{"success":true,"status":200,"data":{"walletId":"w1","address":"0xabc"}}'',
               JObj [(''success'', JBool True), (''status'', JNum 200),
                     (''data'', JObj [(''walletId'', JStr ''w1''), (''address'', JStr ''0xabc'')])])]
             (Responded \<lparr>status = 200, statusText = ''OK''\<rparr>
                ''{"success":true,"status":200,"data":{"walletId":"w1","address":"0xabc"}}''))
          sample_config ''GET'' ''/api/wallets'' JUndefined)
      = Returned (JObj [(''walletId'', JStr ''w1''), (''address'', JStr ''0xabc'')])\<close>
proof -
  let ?rt = \<open>''{"success":true,"status":200,"data":{"walletId":"w1","address":"0xabc"}}''\<close>
  let ?kvs = "[(''success'', JBool True), (''status'', JNum 200),
               (''data'', JObj [(''walletId'', JStr ''w1''), (''address'', JStr ''0xabc'')])]"
  let ?resp = "\<lparr>status = 200, statusText = ''OK''\<rparr>"
  let ?pf = "mock_platform [(?rt, JObj ?kvs)] (Responded ?resp ?rt)"
  have f: "fetch ?pf ''https://kite.example.com/api/wallets''
             \<lparr>init_method = ''GET'',
              init_headers = [(''Content-Type'', ''application/json''), (''X-API-Key'', ''key'')],
              init_body = None\<rparr> = Responded ?resp ?rt"
    by (rule mock_fetch)
  have lo: "200 \<le> status ?resp" and hi: "status ?resp \<le> 299" by simp_all
  have p: "JSON_parse ?pf ?rt = Some (JObj ?kvs)" by (simp add: mock_parse)
  have s: "map_of ?kvs ''success'' = Some (JBool True)" by simp
  have t: "map_of ?kvs ''status'' = Some (JNum 200)" by simp
  from request_unwraps_data[OF sample_build_get f lo hi p s t] show ?thesis by simp
qed

section \<open>A body that is not JSON\<close>

text \<open>
  Claim C5. When the status is in 200 to 299 and the body does not parse as JSON,
  \<open>request\<close> does not throw: \<open>safeJsonParse\<close> turns the failure into a null envelope,
  and the empty object is returned as the payload.
\<close>

theorem request_malformed_body:
  assumes "build_request pf config method path body = Inr (url, init)"
    and "fetch pf url init = Responded resp responseText"
    and "200 \<le> status resp" and "status resp \<le> 299"
    and "JSON_parse pf responseText = None"
  shows "safeJsonParse pf responseText = JNull
         \<and> snd (request pf config method path body) = Returned (JObj [])"
proof -
  have okr: "ok resp" using assms(3,4) by (simp add: ok_def)
  have d: "safeJsonParse pf responseText = JNull"
    using assms(5) by (simp add: safeJsonParse_def)
  show ?thesis
    unfolding request_responded[OF assms(1,2)]
    using okr d by (simp add: on_response_def Let_def)
qed

text \<open>An instance: status 200 with the body \<^verbatim>\<open>not json{\<close>.\<close>

theorem request_malformed_body_witness:
  "JSON_parse (mock_platform [] (Responded \<lparr>status = 200, statusText = ''OK''\<rparr> ''not json{''))
      ''not json{'' = None
   \<and> snd (request (mock_platform [] (Responded \<lparr>status = 200, statusText = ''OK''\<rparr> ''not json{''))
            sample_config ''GET'' ''/api/wallets'' JUndefined)
      = Returned (JObj [])"
proof -
  let ?resp = "\<lparr>status = 200, statusText = ''OK''\<rparr>"
  let ?pf = "mock_platform [] (Responded ?resp ''not json{'')"
  have f: "fetch ?pf ''https://kite.example.com/api/wallets''
             \<lparr>init_method = ''GET'',
              init_headers = [(''Content-Type'', ''application/json''), (''X-API-Key'', ''key'')],
              init_body = None\<rparr> = Responded ?resp ''not json{''"
    by (rule mock_fetch)
  have lo: "200 \<le> status ?resp" and hi: "status ?resp \<le> 299" by simp_all
  have p: "JSON_parse ?pf ''not json{'' = None" by (simp add: mock_parse)
  from request_malformed_body[OF sample_build_get f lo hi p] p show ?thesis by simp
qed

section \<open>A failed exchange\<close>

text \<open>
  Claim C6. When the exchange fails, \<open>request\<close> throws a \<^verbatim>\<open>KiteNetworkError\<close> (never
  a \<^verbatim>\<open>KiteApiError\<close>) that keeps the failure as its cause. If the failure is the abort
  that the cancellation timer triggers, the message states the configured timeout, as
  JavaScript prints that number, whatever number it is; for any other failure it is the
  message of the failure, or \<^verbatim>\<open>Network request failed\<close> when the failure has none. The
  two cases differ in the message only.
\<close>

theorem request_network_error:
  assumes "build_request pf config method path body = Inr (url, init)"
    and "fetch pf url init = Rejected err"
  shows "\<exists>e. snd (request pf config method path body) = ThrowNetwork e
           \<and> cause e = err
           \<and> net_message e =
               (if err_name err = Some ''AbortError''
                then ''Request timed out after '' @ Number_toString (timeout config) @ ''ms''
                else (case err_message err of
                        None \<Rightarrow> ''Network request failed''
                      | Some m \<Rightarrow> if m = [] then ''Network request failed'' else m))"
  unfolding request_rejected[OF assms]
  by (cases "err_message err") (simp_all add: on_failure_def Let_def)

text \<open>
  Instances. An abort under the default timeout of 30000, under a timeout of 50, under
  1e21 (which JavaScript prints with an exponent) and under 1.5; and a refused connection.
\<close>

theorem request_network_error_witness:
  "(\<exists>e. snd (request
             (mock_platform []
                (Rejected \<lparr>err_name = Some ''AbortError'',
                           err_message = Some ''This operation was aborted''\<rparr>))
             sample_config ''GET'' ''/api/wallets'' JUndefined) = ThrowNetwork e
        \<and> cause e = \<lparr>err_name = Some ''AbortError'',
                       err_message = Some ''This operation was aborted''\<rparr>
        \<and> net_message e = ''Request timed out after 30000ms'')
   \<and> (\<exists>e. snd (request
             (mock_platform []
                (Rejected \<lparr>err_name = Some ''AbortError'',
                           err_message = Some ''This operation was aborted''\<rparr>))
             (sample_config\<lparr>timeout := Finite False 50 2\<rparr>)
             ''GET'' ''/api/wallets'' JUndefined) = ThrowNetwork e
        \<and> net_message e = ''Request timed out after 50ms'')
   \<and> (\<exists>e. snd (request
             (mock_platform []
                (Rejected \<lparr>err_name = Some ''AbortError'',
                           err_message = Some ''This operation was aborted''\<rparr>))
             (sample_config\<lparr>timeout := Finite False 1 22\<rparr>)
             ''GET'' ''/api/wallets'' JUndefined) = ThrowNetwork e
        \<and> net_message e = ''Request timed out after 1e+21ms'')
   \<and> (\<exists>e. snd (request
             (mock_platform []
                (Rejected \<lparr>err_name = Some ''AbortError'',
                           err_message = Some ''This operation was aborted''\<rparr>))
             (sample_config\<lparr>timeout := Finite False 15 1\<rparr>)
             ''GET'' ''/api/wallets'' JUndefined) = ThrowNetwork e
        \<and> net_message e = ''Request timed out after 1.5ms'')
   \<and> (\<exists>e. snd (request
             (mock_platform []
                (Rejected \<lparr>err_name = Some ''TypeError'', err_message = Some ''fetch failed''\<rparr>))
             sample_config ''GET'' ''/api/wallets'' JUndefined) = ThrowNetwork e
        \<and> cause e = \<lparr>err_name = Some ''TypeError'', err_message = Some ''fetch failed''\<rparr>
        \<and> net_message e = ''fetch failed'')"
proof -
  let ?abort = "\<lparr>err_name = Some ''AbortError'', err_message = Some ''This operation was aborted''\<rparr>"
  let ?refused = "\<lparr>err_name = Some ''TypeError'', err_message = Some ''fetch failed''\<rparr>"
  let ?url = "''https://kite.example.com/api/wallets''"
  let ?init = "\<lparr>init_method = ''GET'',
              init_headers = [(''Content-Type'', ''application/json''), (''X-API-Key'', ''key'')],
              init_body = None\<rparr>"
  have f1: "fetch (mock_platform [] (Rejected ?abort)) ?url ?init = Rejected ?abort"
    by (rule mock_fetch)
  have f2: "fetch (mock_platform [] (Rejected ?refused)) ?url ?init = Rejected ?refused"
    by (rule mock_fetch)
  have t: "timeout sample_config = Finite False 30000 5" by (simp add: sample_config_def)
  have a: "\<exists>e. snd (request (mock_platform [] (Rejected ?abort)) sample_config
                     ''GET'' ''/api/wallets'' JUndefined) = ThrowNetwork e
        \<and> cause e = ?abort \<and> net_message e = ''Request timed out after 30000ms''"
    using request_network_error[OF sample_build_get f1]
    by (simp add: t Number_toString_examples)
  have b: "\<exists>e. snd (request (mock_platform [] (Rejected ?abort))
                     (sample_config\<lparr>timeout := Finite False 50 2\<rparr>)
                     ''GET'' ''/api/wallets'' JUndefined) = ThrowNetwork e
        \<and> net_message e = ''Request timed out after 50ms''"
    using request_network_error[OF sample_build_get_timeout f1, of "Finite False 50 2"]
    by (auto simp: Number_toString_examples)
  have c: "\<exists>e. snd (request (mock_platform [] (Rejected ?abort))
                     (sample_config\<lparr>timeout := Finite False 1 22\<rparr>)
                     ''GET'' ''/api/wallets'' JUndefined) = ThrowNetwork e
        \<and> net_message e = ''Request timed out after 1e+21ms''"
    using request_network_error[OF sample_build_get_timeout f1, of "Finite False 1 22"]
    by (auto simp: Number_toString_examples simp del: One_nat_def)
  have d: "\<exists>e. snd (request (mock_platform [] (Rejected ?abort))
                     (sample_config\<lparr>timeout := Finite False 15 1\<rparr>)
                     ''GET'' ''/api/wallets'' JUndefined) = ThrowNetwork e
        \<and> net_message e = ''Request timed out after 1.5ms''"
    using request_network_error[OF sample_build_get_timeout f1, of "Finite False 15 1"]
    by (auto simp: Number_toString_examples)
  have e: "\<exists>e. snd (request (mock_platform [] (Rejected ?refused)) sample_config
                     ''GET'' ''/api/wallets'' JUndefined) = ThrowNetwork e
        \<and> cause e = ?refused \<and> net_message e = ''fetch failed''"
    using request_network_error[OF sample_build_get f2] by simp
  from a b c d e show ?thesis by (intro conjI)
qed

section \<open>The level filter of the log\<close>

text \<open>
  Claim C7 says that a message of level \<open>L\<close> is emitted under the configured level \<open>M\<close>
  exactly when the rank of \<open>L\<close> is at least the rank of \<open>M\<close>. The logging function of
  the client compares the other way round (\<^verbatim>\<open>LOG_LEVELS[level] <= LOG_LEVELS[logLevel]\<close>):
  it emits exactly when the rank of \<open>L\<close> is at most the rank of \<open>M\<close>. So a client
  with the default level info drops every error message, whose rank is above the
  threshold, and prints every debug message, whose rank is below it.
\<close>

theorem client_log_threshold_inverted:
  "(client_log lvl level msg \<noteq> []) = (LOG_LEVELS level \<le> LOG_LEVELS lvl)
   \<and> LOG_LEVELS (logLevel sample_config) \<le> LOG_LEVELS Error
   \<and> log sample_config Error msg = []
   \<and> \<not> LOG_LEVELS (logLevel sample_config) \<le> LOG_LEVELS Debug
   \<and> log sample_config Debug msg = [Console ''log'' (''[KiteSDK] '' @ msg)]"
  by (simp add: client_log_def sample_config_def)

section \<open>Errors of the public methods\<close>

text \<open>
  Claim C8, as the code has it. A \<^verbatim>\<open>KiteApiError\<close> thrown by a public method of the
  client is either the error of a failed argument check, with \<^verbatim>\<open>statusCode\<close> 400 and
  no \<^verbatim>\<open>raw\<close>, thrown before anything is logged or sent; or a request was sent, the
  service responded, and the response carries a failure signal: a status outside 200 to
  299, or an envelope whose \<^verbatim>\<open>success\<close> is \<^verbatim>\<open>false\<close>.
\<close>

theorem api_error_origin:
  assumes "invoke pf config c = (evs, ThrowApi e)"
  shows "(evs = [] \<and> statusCode e = JNum 400 \<and> raw e = JUndefined)
         \<or> (\<exists>url init resp responseText.
               Fetch url init \<in> set evs \<and> fetch pf url init = Responded resp responseText
               \<and> (status resp < 200 \<or> 299 < status resp
                    \<or> (\<exists>kvs. JSON_parse pf responseText = Some (JObj kvs)
                             \<and> map_of kvs ''success'' = Some (JBool False))))"
proof (cases c)
  case HealthCheck
  with assms show ?thesis
    by (auto simp: healthCheck_def dest!: then_return_ThrowApi request_ThrowApi)
next
  case (CreateWallet ps)
  with assms show ?thesis
    by (auto simp: createWallet_def dest!: request_ThrowApi)
next
  case ListWallets
  with assms show ?thesis
    by (auto simp: listWallets_def dest!: then_return_ThrowApi request_ThrowApi)
next
  case (GetWallet walletId)
  with assms show ?thesis
    by (auto simp: getWallet_def split: if_splits
        dest!: with_encoded_ThrowApi then_return_ThrowApi request_ThrowApi bad_request_ThrowApi)
next
  case (GetWalletsByUser email)
  with assms show ?thesis
    by (auto simp: getWalletsByUser_def split: if_splits
        dest!: with_encoded_ThrowApi then_return_ThrowApi request_ThrowApi bad_request_ThrowApi)
next
  case ListUsers
  with assms show ?thesis
    by (auto simp: listUsers_def dest!: then_return_ThrowApi request_ThrowApi)
next
  case (GetUser email)
  with assms show ?thesis
    by (auto simp: getUser_def split: if_splits
        dest!: with_encoded_ThrowApi then_return_ThrowApi request_ThrowApi bad_request_ThrowApi)
next
  case (GetNonce ps)
  with assms show ?thesis
    by (auto simp: getNonce_def split: if_splits
        dest!: request_ThrowApi bad_request_ThrowApi)
next
  case (GetGasPrices ps)
  with assms show ?thesis
    by (auto simp: getGasPrices_def split: if_splits
        dest!: request_ThrowApi bad_request_ThrowApi)
next
  case (GetGasPrice ps)
  with assms show ?thesis
    by (auto simp: getGasPrice_def split: if_splits
        dest!: request_ThrowApi bad_request_ThrowApi)
next
  case (CreateNativeTransfer ps)
  with assms show ?thesis
    by (auto simp: createNativeTransfer_def split: if_splits
        dest!: request_ThrowApi bad_request_ThrowApi)
next
  case (CreateERC20Transfer ps)
  with assms show ?thesis
    by (auto simp: createERC20Transfer_def split: if_splits
        dest!: request_ThrowApi bad_request_ThrowApi)
next
  case (SignTransaction ps)
  with assms show ?thesis
    by (auto simp: signTransaction_def split: if_splits
        dest!: request_ThrowApi bad_request_ThrowApi)
next
  case (BroadcastTransaction ps)
  with assms show ?thesis
    by (auto simp: broadcastTransaction_def split: if_splits
        dest!: request_ThrowApi bad_request_ThrowApi)
qed

text \<open>
  An instance: \<^verbatim>\<open>getNonce\<close> with both parameters, answered by status 404 and the body
  \<^verbatim>\<open>{"error":"Wallet not found"}\<close>. The request was sent before the error was thrown.
\<close>

theorem api_error_origin_witness:
  \<open>invoke
      (mock_platform [(''{"error":"Wallet not found"}'', JObj [(''error'', JStr ''Wallet not found'')])]
         (Responded \<lparr>status = 404, statusText = ''Not Found''\<rparr> ''{"error":"Wallet not found"}''))
      sample_config
      (GetNonce [(''walletId'', JStr ''w1''), (''rpcUrl'', JStr ''https://rpc.example.com'')])
    = ([SetTimeout (Finite False 30000 5),
        Console ''log'' ''[KiteSDK] POST https://kite.example.com/api/transactions/nonce'',
        Fetch ''https://kite.example.com/api/transactions/nonce''
          \<lparr>init_method = ''POST'',
           init_headers = [(''Content-Type'', ''application/json''), (''X-API-Key'', ''key'')],
           init_body = Some ''{}''\<rparr>,
        ClearTimeout],
       ThrowApi \<lparr>statusCode = JNum 404, message = ''Wallet not found'', code = None,
                 raw = JObj [(''error'', JStr ''Wallet not found'')]\<rparr>)
   \<and> (\<exists>url init resp responseText.
         fetch
           (mock_platform [(''{"error":"Wallet not found"}'', JObj [(''error'', JStr ''Wallet not found'')])]
              (Responded \<lparr>status = 404, statusText = ''Not Found''\<rparr> ''{"error":"Wallet not found"}''))
           url init = Responded resp responseText
         \<and> 299 < status resp)\<close>
proof -
  let ?rt = \<open>''{"error":"Wallet not found"}''\<close>
  let ?pf = "mock_platform [(?rt, JObj [(''error'', JStr ''Wallet not found'')])]
               (Responded \<lparr>status = 404, statusText = ''Not Found''\<rparr> ?rt)"
  let ?evs = "[SetTimeout (Finite False 30000 5),
        Console ''log'' ''[KiteSDK] POST https://kite.example.com/api/transactions/nonce'',
        Fetch ''https://kite.example.com/api/transactions/nonce''
          \<lparr>init_method = ''POST'',
           init_headers = [(''Content-Type'', ''application/json''), (''X-API-Key'', ''key'')],
           init_body = Some ''{}''\<rparr>,
        ClearTimeout]"
  let ?e = "\<lparr>statusCode = JNum 404, message = ''Wallet not found'', code = None,
                 raw = JObj [(''error'', JStr ''Wallet not found'')]\<rparr>"
  have h: "invoke ?pf sample_config
             (GetNonce [(''walletId'', JStr ''w1''), (''rpcUrl'', JStr ''https://rpc.example.com'')])
           = (?evs, ThrowApi ?e)"
    by (simp add: getNonce_def param_def request_def build_request_def sample_config_def
          strip_trailing_slash_def mock_platform_def mock_stringify_def on_response_def
          safeJsonParse_def ok_def client_log_def Let_def)
  from api_error_origin[OF h] have "\<exists>url init resp responseText.
         fetch ?pf url init = Responded resp responseText \<and> 299 < status resp"
    by (simp add: mock_platform_def)
  with h show ?thesis by blast
qed

text \<open>
  Claim C8 as it is worded (no \<^verbatim>\<open>KiteApiError\<close> without an HTTP exchange) fails:
  \<^verbatim>\<open>getWallet('')\<close> throws a \<^verbatim>\<open>KiteApiError\<close> with \<^verbatim>\<open>statusCode\<close> 400 from its
  argument check, and so does \<^verbatim>\<open>getNonce({ walletId: 'w1' })\<close>, which lacks the
  \<^verbatim>\<open>rpcUrl\<close>; no request is sent (the list of events is empty), whatever the service
  would have answered.
\<close>

theorem validation_error_without_exchange_counterexample:
  "invoke (mock_platform [] (Responded \<lparr>status = 200, statusText = ''OK''\<rparr> ''{}''))
     sample_config (GetWallet (JStr ''''))
   = ([], ThrowApi \<lparr>statusCode = JNum 400,
                    message = ''walletId is required and must be a string'',
                    code = None, raw = JUndefined\<rparr>)
   \<and> invoke (mock_platform [] (Responded \<lparr>status = 200, statusText = ''OK''\<rparr> ''{}''))
       sample_config (GetNonce [(''walletId'', JStr ''w1'')])
   = ([], ThrowApi \<lparr>statusCode = JNum 400,
                    message = ''walletId and rpcUrl are required'',
                    code = None, raw = JUndefined\<rparr>)"
  by (simp add: getWallet_def getNonce_def param_def bad_request_def)

section \<open>A bare object\<close>

text \<open>
  Claim C9. When the status is in 200 to 299 and the parsed envelope is an object with
  neither a \<^verbatim>\<open>data\<close> nor a \<^verbatim>\<open>success\<close> property, \<open>request\<close> returns that object
  unchanged.
\<close>

theorem request_bare_object:
  assumes "build_request pf config method path body = Inr (url, init)"
    and "fetch pf url init = Responded resp responseText"
    and "200 \<le> status resp" and "status resp \<le> 299"
    and "JSON_parse pf responseText = Some (JObj kvs)"
    and "map_of kvs ''data'' = None" and "map_of kvs ''success'' = None"
  shows "snd (request pf config method path body) = Returned (JObj kvs)"
proof -
  have okr: "ok resp" using assms(3,4) by (simp add: ok_def)
  have d: "safeJsonParse pf responseText = JObj kvs"
    using assms(5) by (simp add: safeJsonParse_def)
  show ?thesis
    unfolding request_responded[OF assms(1,2)]
    using okr d assms(6,7) by (simp add: on_response_def Let_def)
qed

text \<open>An instance: the body \<^verbatim>\<open>{"nonce":7}\<close>.\<close>

theorem request_bare_object_witness:
  \<open>snd (request
          (mock_platform [(''{"nonce":7}'', JObj [(''nonce'', JNum 7)])]
             (Responded \<lparr>status = 200, statusText = ''OK''\<rparr> ''{"nonce":7}''))
          sample_config ''GET'' ''/api/wallets'' JUndefined)
      = Returned (JObj [(''nonce'', JNum 7)])\<close>
proof -
  let ?rt = \<open>''{"nonce":7}''\<close>
  let ?kvs = "[(''nonce'', JNum 7)]"
  let ?resp = "\<lparr>status = 200, statusText = ''OK''\<rparr>"
  let ?pf = "mock_platform [(?rt, JObj ?kvs)] (Responded ?resp ?rt)"
  have f: "fetch ?pf ''https://kite.example.com/api/wallets''
             \<lparr>init_method = ''GET'',
              init_headers = [(''Content-Type'', ''application/json''), (''X-API-Key'', ''key'')],
              init_body = None\<rparr> = Responded ?resp ?rt"
    by (rule mock_fetch)
  have lo: "200 \<le> status ?resp" and hi: "status ?resp \<le> 299" by simp_all
  have p: "JSON_parse ?pf ?rt = Some (JObj ?kvs)" by (simp add: mock_parse)
  have d: "map_of ?kvs ''data'' = None" and s: "map_of ?kvs ''success'' = None" by simp_all
  from request_bare_object[OF sample_build_get f lo hi p d s] show ?thesis .
qed

section \<open>Only \<^verbatim>\<open>false\<close> declares a failure\<close>

text \<open>
  Claim C10. When the status is in 200 to 299 and the body parses to an object, the
  \<^verbatim>\<open>KiteApiError\<close> of a declared failure is thrown only if the \<^verbatim>\<open>success\<close> property
  is the boolean \<^verbatim>\<open>false\<close>. With any other value there (0, the string
  \<^verbatim>\<open>"false"\<close>, null, the empty string, \<^verbatim>\<open>true\<close>) or with no such property, the
  call is a success and returns the payload: the \<^verbatim>\<open>data\<close> property if the envelope has
  one that is not null, else the envelope.
\<close>

theorem request_only_false_fails:
  assumes "build_request pf config method path body = Inr (url, init)"
    and "fetch pf url init = Responded resp responseText"
    and "200 \<le> status resp" and "status resp \<le> 299"
    and "JSON_parse pf responseText = Some (JObj kvs)"
  shows "if map_of kvs ''success'' = Some (JBool False)
         then throws_api (snd (request pf config method path body))
         else snd (request pf config method path body) =
                Returned (case map_of kvs ''data'' of
                            None \<Rightarrow> JObj kvs
                          | Some x \<Rightarrow> if x = JNull \<or> x = JUndefined then JObj kvs else x)"
proof -
  have okr: "ok resp" using assms(3,4) by (simp add: ok_def)
  have d: "safeJsonParse pf responseText = JObj kvs"
    using assms(5) by (simp add: safeJsonParse_def)
  show ?thesis
    unfolding request_responded[OF assms(1,2)]
    using okr d
    by (cases "map_of kvs ''data''"; cases "the (map_of kvs ''data'')";
        cases "map_of kvs ''success''")
       (simp_all add: on_response_def Let_def)
qed

text \<open>
  Two instances: \<^verbatim>\<open>{"success":0,"data":{"nonce":7}}\<close> is a success and yields the
  payload; \<^verbatim>\<open>{"success":false,"data":{"nonce":7}}\<close> is a declared failure.
\<close>

theorem request_only_false_fails_witness:
  \<open>snd (request
          (mock_platform
             [(''{"success":0,"data":{"nonce":7}}'',
               JObj [(''success'', JNum 0), (''data'', JObj [(''nonce'', JNum 7)])])]
             (Responded \<lparr>status = 200, statusText = ''OK''\<rparr> ''{"success":0,"data":{"nonce":7}}''))
          sample_config ''GET'' ''/api/wallets'' JUndefined)
      = Returned (JObj [(''nonce'', JNum 7)])
    \<and> throws_api (snd (request
          (mock_platform
             [(''{"success":false,"data":{"nonce":7}}'',
               JObj [(''success'', JBool False), (''data'', JObj [(''nonce'', JNum 7)])])]
             (Responded \<lparr>status = 200, statusText = ''OK''\<rparr> ''{"success":false,"data":{"nonce":7}}''))
          sample_config ''GET'' ''/api/wallets'' JUndefined))\<close>
proof -
  let ?rt0 = \<open>''{"success":0,"data":{"nonce":7}}''\<close>
  let ?kvs0 = "[(''success'', JNum 0), (''data'', JObj [(''nonce'', JNum 7)])]"
  let ?rtf = \<open>''{"success":false,"data":{"nonce":7}}''\<close>
  let ?kvsf = "[(''success'', JBool False), (''data'', JObj [(''nonce'', JNum 7)])]"
  let ?resp = "\<lparr>status = 200, statusText = ''OK''\<rparr>"
  let ?url = "''https://kite.example.com/api/wallets''"
  let ?init = "\<lparr>init_method = ''GET'',
              init_headers = [(''Content-Type'', ''application/json''), (''X-API-Key'', ''key'')],
              init_body = None\<rparr>"
  have f0: "fetch (mock_platform [(?rt0, JObj ?kvs0)] (Responded ?resp ?rt0)) ?url ?init
              = Responded ?resp ?rt0"
    by (rule mock_fetch)
  have ff: "fetch (mock_platform [(?rtf, JObj ?kvsf)] (Responded ?resp ?rtf)) ?url ?init
              = Responded ?resp ?rtf"
    by (rule mock_fetch)
  have lo: "200 \<le> status ?resp" and hi: "status ?resp \<le> 299" by simp_all
  have p0: "JSON_parse (mock_platform [(?rt0, JObj ?kvs0)] (Responded ?resp ?rt0)) ?rt0
              = Some (JObj ?kvs0)"
    by (simp add: mock_parse)
  have pf: "JSON_parse (mock_platform [(?rtf, JObj ?kvsf)] (Responded ?resp ?rtf)) ?rtf
              = Some (JObj ?kvsf)"
    by (simp add: mock_parse)
  from request_only_false_fails[OF sample_build_get f0 lo hi p0]
       request_only_false_fails[OF sample_build_get ff lo hi pf]
  show ?thesis by simp
qed

end
